theory Spec2Isabelle
  imports Main "HOL-Library.Multiset"
begin

section \<open>Python library values used by script.py\<close>

text \<open>
  \<^verbatim>\<open>sep.join(xs)\<close> on a list of strings.
\<close>

fun join :: "string \<Rightarrow> string list \<Rightarrow> string" where
  "join sep [] = []"
| "join sep [x] = x"
| "join sep (x # y # ys) = x @ sep @ join sep (y # ys)"

text \<open>\<^verbatim>\<open>s.startswith(p)\<close>.\<close>

definition startswith :: "string \<Rightarrow> string \<Rightarrow> bool" where
  "startswith s p = (take (length p) s = p)"

text \<open>
  The two tables of the \<^verbatim>\<open>logging\<close> module that the script reads,
  \<^verbatim>\<open>logging._levelToName\<close> and \<^verbatim>\<open>logging._nameToLevel\<close>, in their
  insertion order. A Python \<^verbatim>\<open>None\<close> is \<open>None\<close> here, and \<^verbatim>\<open>d.get(k)\<close>
  is \<open>None\<close> for a key that is absent, also for the key \<^verbatim>\<open>None\<close>.
\<close>

definition levelToName :: "(int \<times> string) list" where
  "levelToName =
     [(50, ''CRITICAL''), (40, ''ERROR''), (30, ''WARNING''),
      (20, ''INFO''), (10, ''DEBUG''), (0, ''NOTSET'')]"

definition nameToLevel :: "(string \<times> int) list" where
  "nameToLevel =
     [(''CRITICAL'', 50), (''FATAL'', 50), (''ERROR'', 40), (''WARN'', 30),
      (''WARNING'', 30), (''INFO'', 20), (''DEBUG'', 10), (''NOTSET'', 0)]"

definition levelToName_get :: "int option \<Rightarrow> string option" where
  "levelToName_get k = (case k of None \<Rightarrow> None | Some l \<Rightarrow> map_of levelToName l)"

definition nameToLevel_get :: "string option \<Rightarrow> int option" where
  "nameToLevel_get k = (case k of None \<Rightarrow> None | Some n \<Rightarrow> map_of nameToLevel n)"

definition LOG_LEVEL_NAMES :: "string list" where
  "LOG_LEVEL_NAMES = map fst nameToLevel"

definition LOG_LEVEL_NAMES_STR :: string where
  "LOG_LEVEL_NAMES_STR = join '', '' LOG_LEVEL_NAMES"

definition LOG_LEVEL_NAMES_OPT_STR :: string where
  "LOG_LEVEL_NAMES_OPT_STR = join ''|'' LOG_LEVEL_NAMES"

text \<open>The numeric levels of \<^verbatim>\<open>log.critical\<close>, \<^verbatim>\<open>log.error\<close>, \<^verbatim>\<open>log.info\<close> and \<^verbatim>\<open>log.debug\<close>.\<close>

definition CRITICAL :: int where "CRITICAL = 50"
definition ERROR :: int where "ERROR = 40"
definition INFO :: int where "INFO = 20"
definition DEBUG :: int where "DEBUG = 10"

text \<open>
  A record emitted on the \<^verbatim>\<open>nagiosplugin\<close> logger: level, message, and the value of the
  \<^verbatim>\<open>slack_exception_attachment\<close> key of \<^verbatim>\<open>extra\<close> when one is passed.
\<close>

datatype log_record = LogRecord int string "string option"


section \<open>The unittest framework, as far as the script observes it\<close>

text \<open>
  A test object as the script reads it, by the text that \<^verbatim>\<open>str\<close> gives for it: a test case
  instance, a sub-test, or the holder under which the framework records an error raised by
  \<^verbatim>\<open>setUpClass\<close>, \<^verbatim>\<open>tearDownClass\<close> or a module fixture.
\<close>

datatype test = Test (str_test: string)

text \<open>
  The calls that the framework makes on a \<^verbatim>\<open>TestResult\<close> while a suite runs. The string of
  \<^verbatim>\<open>addFailure\<close> and \<^verbatim>\<open>addError\<close> is the formatted traceback stored with the test; a
  failing sub-test is recorded through \<^verbatim>\<open>addSubTest\<close>, which stores it as one of these two
  do. The other calls of the framework change none of \<^verbatim>\<open>testsRun\<close>, \<^verbatim>\<open>failures\<close> and
  \<^verbatim>\<open>errors\<close>, as \<^verbatim>\<open>addSuccess\<close> and \<^verbatim>\<open>addSkip\<close> here.
\<close>

datatype call =
    StartTest test
  | AddSuccess test
  | AddSkip test string
  | AddFailure test string
  | AddError test string

text \<open>
  A test case class: \<^verbatim>\<open>__name__\<close>, the names \<^verbatim>\<open>dir(cls)\<close> lists, and the calls made on the
  result when the suite that the loader builds from the class is run. Which tests the loader
  finds, what the fixtures and sub-tests do, and how often a test ends in a list of the result is
  the framework's and the class's own doing; it is given with the class, not derived here.
\<close>

record unittestcase_class =
  cls_name :: string
  cls_dir :: "string list"
  cls_calls :: "call list"

text \<open>
  \<^verbatim>\<open>unittest.defaultTestLoader.loadTestsFromTestCase(cls)\<close>: the suite of the class, a function
  of the class alone. A suite is represented by the calls its run makes.
\<close>

definition loadTestsFromTestCase :: "unittestcase_class \<Rightarrow> call list" where
  "loadTestsFromTestCase cls = cls_calls cls"

record TestResult =
  testsRun :: nat
  failures :: "(test \<times> string) list"
  errors :: "(test \<times> string) list"

definition TestResult_new :: TestResult where
  "TestResult_new = \<lparr>testsRun = 0, failures = [], errors = []\<rparr>"

text \<open>The methods of \<^verbatim>\<open>unittest.TestResult\<close> that change the three fields.\<close>

definition startTest :: "test \<Rightarrow> TestResult \<Rightarrow> TestResult" where
  "startTest t r = r\<lparr>testsRun := testsRun r + 1\<rparr>"

definition addFailure :: "test \<Rightarrow> string \<Rightarrow> TestResult \<Rightarrow> TestResult" where
  "addFailure t tb r = r\<lparr>failures := failures r @ [(t, tb)]\<rparr>"

definition addError :: "test \<Rightarrow> string \<Rightarrow> TestResult \<Rightarrow> TestResult" where
  "addError t tb r = r\<lparr>errors := errors r @ [(t, tb)]\<rparr>"

fun call_on :: "call \<Rightarrow> TestResult \<Rightarrow> TestResult" where
  "call_on (StartTest t) r = startTest t r"
| "call_on (AddSuccess t) r = r"
| "call_on (AddSkip t reason) r = r"
| "call_on (AddFailure t tb) r = addFailure t tb r"
| "call_on (AddError t tb) r = addError t tb r"

text \<open>\<^verbatim>\<open>test_suite.run(result)\<close>: the calls of the suite's run, in order, on one result object.\<close>

definition suite_run :: "call list \<Rightarrow> TestResult \<Rightarrow> TestResult" where
  "suite_run test_suite result = fold call_on test_suite result"


section \<open>The nagiosplugin values the script builds\<close>

datatype state = Ok | Warn | Critical | Unknown

text \<open>\<^verbatim>\<open>nagiosplugin.Metric(test_name, True, context='UnittestCaseContext')\<close>; field 0 is the name.\<close>

record metric =
  metric_name :: string
  metric_value :: bool
  metric_context :: string

record result =
  res_state :: state
  res_hint :: string
  res_metric :: metric

text \<open>
  \<^verbatim>\<open>UnittestCaseContext\<close>: the context name, \<^verbatim>\<open>fmt_metric\<close>, and the test case class taken
  from the keyword argument (the entry point always passes one).
\<close>

record UnittestCaseContext =
  ctx_name :: string
  fmt_metric :: string
  ctx_unittestcase_class :: unittestcase_class

text \<open>
  \<^verbatim>\<open>'{}'.format(self.describe(metric))\<close>: \<^verbatim>\<open>Context.describe\<close> of nagiosplugin returns
  \<^verbatim>\<open>None\<close> for an empty \<^verbatim>\<open>fmt_metric\<close> and \<^verbatim>\<open>fmt_metric.format(...)\<close> otherwise; the model
  covers a \<^verbatim>\<open>fmt_metric\<close> without braces, which formats to itself. With braces the
  framework substitutes fields of the metric or raises; this text is read by the log record of
  level CRITICAL only.
\<close>

definition describe :: "UnittestCaseContext \<Rightarrow> metric \<Rightarrow> string" where
  "describe self m = (if fmt_metric self = [] then ''None'' else fmt_metric self)"

record UnittestCaseResource =
  test_names :: "string list"


section \<open>UnittestCaseContext.evaluate\<close>

text \<open>
  The body of each of the two \<^verbatim>\<open>for\<close> loops over \<^verbatim>\<open>result.errors\<close> and
  \<^verbatim>\<open>result.failures\<close>: two log records, and the test's \<^verbatim>\<open>str\<close> appended to
  \<^verbatim>\<open>hint_list\<close>.
\<close>

definition log_problem ::
  "test \<times> string \<Rightarrow> string list \<times> log_record list \<Rightarrow> string list \<times> log_record list" where
  "log_problem e acc =
     (case acc of (hint_list, lg) \<Rightarrow>
        (hint_list @ [str_test (fst e)],
         lg @ [LogRecord ERROR (str_test (fst e)) None,
               LogRecord DEBUG [] (Some (snd e))]))"

text \<open>
  \<^verbatim>\<open>evaluate(self, metric, resource)\<close> returns the nagiosplugin result and, second, the
  records it wrote to the logger, in order.
\<close>

definition evaluate :: "UnittestCaseContext \<Rightarrow> metric \<Rightarrow> UnittestCaseResource \<Rightarrow> result \<times> log_record list" where
  "evaluate self metric resource =
     (let test_name = metric_name metric;
          test_suite = loadTestsFromTestCase (ctx_unittestcase_class self);
          result = suite_run test_suite TestResult_new;
          n_failures = length (failures result);
          n_errors = length (errors result);
          n_problems = n_failures + n_errors
      in if n_problems > 0 then
           (let sh = (if testsRun result = n_problems
                      then (Critical, ''All tests failed: '')
                      else (Warn, ''Some tests failed: ''));
                lg0 = [LogRecord CRITICAL (describe self metric @ '' failed'') None];
                acc1 = fold log_problem (errors result) ([], lg0);
                acc2 = fold log_problem (failures result) acc1
            in (\<lparr>res_state = fst sh,
                  res_hint = snd sh @ join '', '' (fst acc2),
                  res_metric = metric\<rparr>,
                snd acc2))
         else
           (\<lparr>res_state = Ok,
              res_hint = test_name @ '' test passed'',
              res_metric = metric\<rparr>,
            []))"


section \<open>UnittestCaseResource and UnittestCaseResultsSummary\<close>

definition probe :: "UnittestCaseResource \<Rightarrow> metric list" where
  "probe self =
     map (\<lambda>test_name. \<lparr>metric_name = test_name, metric_value = True,
                        metric_context = ''UnittestCaseContext''\<rparr>)
         (test_names self)"

text \<open>Both methods return the message and the record written by \<^verbatim>\<open>log.info(msg)\<close>.\<close>

definition ok :: "result list \<Rightarrow> string \<times> log_record list" where
  "ok results =
     (let msg = join '', '' (map res_hint results)
      in (msg, [LogRecord INFO msg None]))"

definition problem :: "result list \<Rightarrow> string \<times> log_record list" where
  "problem results =
     (let msg = join '', '' (map res_hint results)
      in (msg, [LogRecord INFO msg None]))"


section \<open>The entry point nagios_script\<close>

text \<open>
  The two ways the entry point ends before the check is built: the exception it raises itself,
  and \<^verbatim>\<open>parser.error(message)\<close>, which prints the usage text and the message and leaves the
  process with status 2. The strings are the exception message, and the usage text and the
  message.
\<close>

datatype error =
    UnittestNagiosWrapperConfigError string
  | ParserError string string

text \<open>
  What \<^verbatim>\<open>argparse\<close> finds on the command line: for each option of the script the value
  given with it, \<open>None\<close> when the option is absent, and the remaining arguments, which
  \<^verbatim>\<open>parse_known_args\<close> returns second. The syntax of options, \<^verbatim>\<open>-h\<close> and the errors
  argparse reports by itself stay inside argparse.
\<close>

record cmdline =
  opt_test_name :: "string option"
  opt_slack_log_level :: "string option"
  opt_slack_webhook_url :: "string option"
  opt_slack_channel :: "string option"
  opt_slack_user :: "string option"
  remaining_args :: "string list"

text \<open>The namespace of parsed arguments, by \<^verbatim>\<open>dest\<close>.\<close>

record parsed_args =
  pa_check_name :: string
  pa_log_level :: "string option"
  pa_slack_webhook_url :: "string option"
  pa_slack_channel :: "string option"
  pa_slack_user :: "string option"

text \<open>
  \<^verbatim>\<open>parser.parse_known_args()\<close> for a parser whose \<^verbatim>\<open>add_argument\<close> calls declared the
  defaults \<open>dflt\<close>: an option that is present gives its value, an absent one its default.
\<close>

definition parse_known_args :: "parsed_args \<Rightarrow> cmdline \<Rightarrow> parsed_args \<times> string list" where
  "parse_known_args dflt argv =
     (\<lparr>pa_check_name =
         (case opt_test_name argv of Some v \<Rightarrow> v | None \<Rightarrow> pa_check_name dflt),
       pa_log_level =
         (case opt_slack_log_level argv of Some v \<Rightarrow> Some v | None \<Rightarrow> pa_log_level dflt),
       pa_slack_webhook_url =
         (case opt_slack_webhook_url argv of Some v \<Rightarrow> Some v
          | None \<Rightarrow> pa_slack_webhook_url dflt),
       pa_slack_channel =
         (case opt_slack_channel argv of Some v \<Rightarrow> Some v | None \<Rightarrow> pa_slack_channel dflt),
       pa_slack_user =
         (case opt_slack_user argv of Some v \<Rightarrow> Some v | None \<Rightarrow> pa_slack_user dflt)\<rparr>,
      remaining_args argv)"

text \<open>\<^verbatim>\<open>SlackHandler(url, channel=..., username=..., level=...)\<close>.\<close>

record SlackHandler =
  sh_webhook_url :: string
  sh_channel :: "string option"
  sh_username :: "string option"
  sh_level :: int

text \<open>
  \<^verbatim>\<open>nagiosplugin.Check(resource, context, summary)\<close> with its name set; the summary object has
  no fields.
\<close>

record Check =
  chk_resource :: UnittestCaseResource
  chk_context :: UnittestCaseContext
  chk_name :: string

text \<open>
  \<^verbatim>\<open>nagios_script\<close> with its six parameters, the command line, and the handlers of the
  module's logger before the call. It returns the error it ends with or the check on which it
  calls \<^verbatim>\<open>check.main()\<close>, and the handlers of the logger afterwards. The help texts of the
  options, shown by \<^verbatim>\<open>-h\<close> only, are left out. The parameter \<open>check_name\<close> is not read by
  the source either.
\<close>

definition nagios_script ::
  "unittestcase_class \<Rightarrow> string option \<Rightarrow> int option \<Rightarrow> string option \<Rightarrow> string option
     \<Rightarrow> string option \<Rightarrow> cmdline \<Rightarrow> SlackHandler list
     \<Rightarrow> (error + Check) \<times> SlackHandler list" where
  "nagios_script unittestcase_class check_name log_level slack_webhook_url slack_channel
       slack_user argv handlers =
     (let test_names =
            map (\<lambda>nm. cls_name unittestcase_class @ ''.'' @ nm)
              (filter (\<lambda>nm. startswith nm ''test'') (cls_dir unittestcase_class));
          test_names_displ = ''['' @ join ''] ['' test_names @ '']'';
          options = ''[-h] [-s] [-c] [-u] '' @ test_names_displ;
          usage = ''%(prog)s '' @ options;
          log_level_s = levelToName_get log_level
      in if log_level = None then
           (Inl (UnittestNagiosWrapperConfigError
                  (''Unrecognised default log-level set.  Use one of: '' @ LOG_LEVEL_NAMES_STR)),
            handlers)
         else
           (let pr = parse_known_args
                       \<lparr>pa_check_name = cls_name unittestcase_class,
                        pa_log_level = log_level_s,
                        pa_slack_webhook_url = None,
                        pa_slack_channel = slack_channel,
                        pa_slack_user = slack_user\<rparr> argv;
                parsed_args = fst pr;
                selected_test_names = snd pr;
                slack_webhook_url =
                  (case pa_slack_webhook_url parsed_args of
                     Some v \<Rightarrow> Some v | None \<Rightarrow> slack_webhook_url);
                slack_channel =
                  (case pa_slack_channel parsed_args of
                     Some v \<Rightarrow> Some v | None \<Rightarrow> slack_channel);
                slack_user =
                  (case pa_slack_user parsed_args of
                     Some v \<Rightarrow> Some v | None \<Rightarrow> slack_user);
                attached =
                  (case slack_webhook_url of
                     None \<Rightarrow> Inr handlers
                   | Some url \<Rightarrow>
                       (case nameToLevel_get (pa_log_level parsed_args) of
                          None \<Rightarrow>
                            Inl (ParserError usage
                                  (''Unrecognised log-level.  Use one of: ''
                                     @ LOG_LEVEL_NAMES_STR))
                        | Some lvl \<Rightarrow>
                            Inr (handlers @
                                  [\<lparr>sh_webhook_url = url, sh_channel = slack_channel,
                                    sh_username = slack_user, sh_level = lvl\<rparr>])))
            in case attached of
                 Inl e \<Rightarrow> (Inl e, handlers)
               | Inr handlers' \<Rightarrow>
                   (let selected_test_names =
                          (if length selected_test_names = 0
                           then [cls_name unittestcase_class]
                           else selected_test_names);
                        nagios_resource = \<lparr>test_names = selected_test_names\<rparr>;
                        nagios_context =
                          \<lparr>ctx_name = ''UnittestCaseContext'',
                           fmt_metric = pa_check_name parsed_args,
                           ctx_unittestcase_class = unittestcase_class\<rparr>
                    in (Inr \<lparr>chk_resource = nagios_resource,
                             chk_context = nagios_context,
                             chk_name = pa_check_name parsed_args\<rparr>,
                        handlers'))))"


section \<open>Notions used to state the properties\<close>

text \<open>
  What a run reports, read off its calls: the tests started, and the entries added to
  \<^verbatim>\<open>result.errors\<close> and to \<^verbatim>\<open>result.failures\<close>, each in the order of the calls.
\<close>

fun tests_started :: "call list \<Rightarrow> test list" where
  "tests_started [] = []"
| "tests_started (StartTest t # cs) = t # tests_started cs"
| "tests_started (c # cs) = tests_started cs"

fun error_entries :: "call list \<Rightarrow> (test \<times> string) list" where
  "error_entries [] = []"
| "error_entries (AddError t tb # cs) = (t, tb) # error_entries cs"
| "error_entries (c # cs) = error_entries cs"

fun failure_entries :: "call list \<Rightarrow> (test \<times> string) list" where
  "failure_entries [] = []"
| "failure_entries (AddFailure t tb # cs) = (t, tb) # failure_entries cs"
| "failure_entries (c # cs) = failure_entries cs"

text \<open>
  A leftover command-line argument that \<^verbatim>\<open>argparse\<close> reads as a positional argument and not
  as an option: it is empty, does not start with \<^verbatim>\<open>-\<close>, is \<^verbatim>\<open>-\<close> alone, looks like a
  negative number, or holds a space.
\<close>

definition digit :: "char \<Rightarrow> bool" where
  "digit c = (c \<in> set ''0123456789'')"

definition negative_number :: "string \<Rightarrow> bool" where
  "negative_number a =
     (case a of
        [] \<Rightarrow> False
      | c # r \<Rightarrow>
          c = CHR ''-'' \<and>
          ((r \<noteq> [] \<and> list_all digit r) \<or>
           (case dropWhile digit r of
              [] \<Rightarrow> False
            | d # f \<Rightarrow> d = CHR ''.'' \<and> f \<noteq> [] \<and> list_all digit f)))"

definition positional :: "string \<Rightarrow> bool" where
  "positional a =
     (case a of
        [] \<Rightarrow> True
      | c # r \<Rightarrow> c \<noteq> CHR ''-'' \<or> r = [] \<or> negative_number a \<or> CHR '' '' \<in> set a)"

definition positional_args :: "cmdline \<Rightarrow> string list" where
  "positional_args argv = filter positional (remaining_args argv)"

text \<open>
  The precedence rule of the specification for a configuration value: the command-line flag, if
  present, overrides the default supplied by the caller.
\<close>

definition flag_or_default :: "'a option \<Rightarrow> 'a option \<Rightarrow> 'a option" where
  "flag_or_default flag dflt = (case flag of Some v \<Rightarrow> Some v | None \<Rightarrow> dflt)"

text \<open>
  The aggregate report of the specification: the hints one after the other, each but the first
  preceded by the separator.
\<close>

fun aggregate_report :: "string \<Rightarrow> string list \<Rightarrow> string" where
  "aggregate_report sep [] = []"
| "aggregate_report sep (h # hs) = h @ concat (map (\<lambda>x. sep @ x) hs)"

text \<open>
  Test case classes for concrete runs. \<open>DemoCase\<close> has a passing, a failing and an erroring
  test beside attributes that are not tests; the two tests of \<open>PassingCase\<close> pass. In
  \<open>FixtureCase\<close> \<^verbatim>\<open>setUpClass\<close> raises, so that no test starts and one error is recorded. In
  \<open>TearDownCase\<close> the first test passes and the second fails an assertion, after which its
  \<^verbatim>\<open>tearDown\<close> raises: the second test is recorded once as a failure and once as an error.
  \<open>context_for\<close> and \<open>metric_for\<close> build the context and the metric as the entry point and
  \<open>probe\<close> do.
\<close>

definition DemoCase :: unittestcase_class where
  "DemoCase =
     \<lparr>cls_name = ''DemoCase'',
      cls_dir = [''maxDiff'', ''setUp'', ''test_a'', ''test_b'', ''test_c''],
      cls_calls =
        [StartTest (Test ''test_a (checks.DemoCase)''),
         AddSuccess (Test ''test_a (checks.DemoCase)''),
         StartTest (Test ''test_b (checks.DemoCase)''),
         AddFailure (Test ''test_b (checks.DemoCase)'') ''AssertionError'',
         StartTest (Test ''test_c (checks.DemoCase)''),
         AddError (Test ''test_c (checks.DemoCase)'') ''KeyError'']\<rparr>"

definition PassingCase :: unittestcase_class where
  "PassingCase =
     \<lparr>cls_name = ''PassingCase'',
      cls_dir = [''test_a'', ''test_b''],
      cls_calls =
        [StartTest (Test ''test_a (checks.PassingCase)''),
         AddSuccess (Test ''test_a (checks.PassingCase)''),
         StartTest (Test ''test_b (checks.PassingCase)''),
         AddSuccess (Test ''test_b (checks.PassingCase)'')]\<rparr>"

definition FixtureCase :: unittestcase_class where
  "FixtureCase =
     \<lparr>cls_name = ''FixtureCase'',
      cls_dir = [''setUpClass'', ''test_a''],
      cls_calls = [AddError (Test ''setUpClass (checks.FixtureCase)'') ''RuntimeError'']\<rparr>"


definition context_for :: "unittestcase_class \<Rightarrow> UnittestCaseContext" where
  "context_for cls =
     \<lparr>ctx_name = ''UnittestCaseContext'', fmt_metric = cls_name cls,
      ctx_unittestcase_class = cls\<rparr>"

definition metric_for :: "string \<Rightarrow> metric" where
  "metric_for n =
     \<lparr>metric_name = n, metric_value = True, metric_context = ''UnittestCaseContext''\<rparr>"

definition no_options :: cmdline where
  "no_options =
     \<lparr>opt_test_name = None, opt_slack_log_level = None, opt_slack_webhook_url = None,
      opt_slack_channel = None, opt_slack_user = None, remaining_args = []\<rparr>"


section \<open>The test run\<close>

lemma testsRun_fold:
  "testsRun (fold call_on cs r) = testsRun r + length (tests_started cs)"
proof (induction cs arbitrary: r)
  case Nil
  show ?case by simp
next
  case (Cons c cs)
  show ?case
    by (cases c) (simp_all add: Cons startTest_def addFailure_def addError_def)
qed

lemma failures_fold: "failures (fold call_on cs r) = failures r @ failure_entries cs"
proof (induction cs arbitrary: r)
  case Nil
  show ?case by simp
next
  case (Cons c cs)
  show ?case
    by (cases c) (simp_all add: Cons startTest_def addFailure_def addError_def)
qed

lemma errors_fold: "errors (fold call_on cs r) = errors r @ error_entries cs"
proof (induction cs arbitrary: r)
  case Nil
  show ?case by simp
next
  case (Cons c cs)
  show ?case
    by (cases c) (simp_all add: Cons startTest_def addFailure_def addError_def)
qed

lemma testsRun_suite_run: "testsRun (suite_run cs TestResult_new) = length (tests_started cs)"
  by (simp add: suite_run_def TestResult_new_def testsRun_fold)

lemma failures_suite_run: "failures (suite_run cs TestResult_new) = failure_entries cs"
  by (simp add: suite_run_def TestResult_new_def failures_fold)

lemma errors_suite_run: "errors (suite_run cs TestResult_new) = error_entries cs"
  by (simp add: suite_run_def TestResult_new_def errors_fold)


section \<open>The evaluator\<close>

lemma fst_fold_log_problem:
  "fst (fold log_problem es acc) = fst acc @ map (\<lambda>e. str_test (fst e)) es"
  by (induction es arbitrary: acc) (auto simp: log_problem_def split: prod.splits)

text \<open>The result of \<open>evaluate\<close> without its log, in terms of the \<^verbatim>\<open>TestResult\<close>.\<close>

lemma evaluate_result:
  "fst (evaluate self metric resource) =
     (let r = suite_run (loadTestsFromTestCase (ctx_unittestcase_class self)) TestResult_new;
          p = length (failures r) + length (errors r)
      in if p = 0
         then \<lparr>res_state = Ok, res_hint = metric_name metric @ '' test passed'',
               res_metric = metric\<rparr>
         else \<lparr>res_state = (if testsRun r = p then Critical else Warn),
               res_hint = (if testsRun r = p then ''All tests failed: ''
                           else ''Some tests failed: '')
                          @ join '', '' (map (\<lambda>e. str_test (fst e)) (errors r)
                                          @ map (\<lambda>e. str_test (fst e)) (failures r)),
               res_metric = metric\<rparr>)"
  by (simp add: evaluate_def Let_def fst_fold_log_problem)

lemma run_Demo:
  "suite_run (loadTestsFromTestCase DemoCase) TestResult_new =
     \<lparr>testsRun = 3,
      failures = [(Test ''test_b (checks.DemoCase)'', ''AssertionError'')],
      errors = [(Test ''test_c (checks.DemoCase)'', ''KeyError'')]\<rparr>"
  by (simp add: loadTestsFromTestCase_def DemoCase_def suite_run_def TestResult_new_def
        startTest_def addFailure_def addError_def)

lemma run_Passing:
  "suite_run (loadTestsFromTestCase PassingCase) TestResult_new =
     \<lparr>testsRun = 2, failures = [], errors = []\<rparr>"
  by (simp add: loadTestsFromTestCase_def PassingCase_def suite_run_def TestResult_new_def
        startTest_def addFailure_def addError_def)

lemma run_Fixture:
  "suite_run (loadTestsFromTestCase FixtureCase) TestResult_new =
     \<lparr>testsRun = 0, failures = [],
      errors = [(Test ''setUpClass (checks.FixtureCase)'', ''RuntimeError'')]\<rparr>"
  by (simp add: loadTestsFromTestCase_def FixtureCase_def suite_run_def TestResult_new_def
        startTest_def addFailure_def addError_def)


text \<open>
  C1, as amended. The status returned by \<open>evaluate\<close> is decided by the counts of the test
  run, taken in this order: Ok when failures plus errors is zero; else Critical when that sum is
  the number of tests run; else Warning, whether the sum is below the number of tests run or
  above it.
\<close>

theorem evaluate_status_by_counts:
  "res_state (fst (evaluate self metric resource)) =
     (let r = suite_run (loadTestsFromTestCase (ctx_unittestcase_class self)) TestResult_new;
          p = length (failures r) + length (errors r)
      in if p = 0 then Ok else if p = testsRun r then Critical else Warn)"
  by (auto simp add: evaluate_result Let_def)

text \<open>
  C1 as stated fails: the Warning case is not the one with failures plus errors strictly between
  zero and the number of tests run. When \<^verbatim>\<open>setUpClass\<close> raises, no test runs, one error is
  recorded, and the status is Warning.
\<close>

theorem evaluate_status_by_counts_counterexample:
  "testsRun (suite_run (loadTestsFromTestCase FixtureCase) TestResult_new) = 0
   \<and> length (failures (suite_run (loadTestsFromTestCase FixtureCase) TestResult_new))
       + length (errors (suite_run (loadTestsFromTestCase FixtureCase) TestResult_new)) = 1
   \<and> res_state (fst (evaluate (context_for FixtureCase) (metric_for ''FixtureCase'')
          \<lparr>test_names = [''FixtureCase'']\<rparr>)) = Warn"
  by (simp add: evaluate_result context_for_def run_Fixture Let_def)

text \<open>
  C2. The tests that \<open>evaluate\<close> runs are those of the whole class, whatever identifier the
  metric carries: for the identifier of the passing test \<^verbatim>\<open>DemoCase.test_a\<close> all three
  tests of the class run, and the result is a Warning that names the other two.
\<close>

theorem evaluate_single_test_runs_whole_case:
  "fst (evaluate (context_for DemoCase) (metric_for ''DemoCase.test_a'')
          \<lparr>test_names = [''DemoCase.test_a'']\<rparr>) =
     \<lparr>res_state = Warn,
      res_hint = ''Some tests failed: test_c (checks.DemoCase), test_b (checks.DemoCase)'',
      res_metric = metric_for ''DemoCase.test_a''\<rparr>
   \<and> testsRun (suite_run (loadTestsFromTestCase (ctx_unittestcase_class (context_for DemoCase)))
        TestResult_new) = 3"
  by (simp add: evaluate_result context_for_def run_Demo Let_def)

text \<open>
  C6, as amended. When the run records no failure and no error, \<open>evaluate\<close> returns Ok and
  the hint is the test identifier of the metric followed by \<^verbatim>\<open> test passed\<close>.
\<close>

theorem evaluate_all_passed:
  assumes "r = suite_run (loadTestsFromTestCase (ctx_unittestcase_class self)) TestResult_new"
    and "length (failures r) + length (errors r) = 0"
  shows "res_state (fst (evaluate self metric resource)) = Ok
       \<and> res_hint (fst (evaluate self metric resource)) = metric_name metric @ '' test passed''"
  using assms by (simp add: evaluate_result Let_def)

text \<open>The amended C6 on the class whose tests all pass, for the identifier of one test.\<close>

theorem evaluate_all_passed_witness:
  "length (failures (suite_run (loadTestsFromTestCase PassingCase) TestResult_new))
     + length (errors (suite_run (loadTestsFromTestCase PassingCase) TestResult_new)) = 0
   \<and> res_state (fst (evaluate (context_for PassingCase) (metric_for ''PassingCase.test_a'')
          \<lparr>test_names = [''PassingCase.test_a'']\<rparr>)) = Ok
   \<and> res_hint (fst (evaluate (context_for PassingCase) (metric_for ''PassingCase.test_a'')
          \<lparr>test_names = [''PassingCase.test_a'']\<rparr>)) = ''PassingCase.test_a test passed''"
proof -
  have r: "suite_run (loadTestsFromTestCase PassingCase) TestResult_new =
      suite_run (loadTestsFromTestCase (ctx_unittestcase_class (context_for PassingCase)))
        TestResult_new"
    by (simp add: context_for_def)
  have p: "length (failures (suite_run (loadTestsFromTestCase PassingCase) TestResult_new))
     + length (errors (suite_run (loadTestsFromTestCase PassingCase) TestResult_new)) = 0"
    by (simp add: run_Passing)
  show ?thesis
    using p evaluate_all_passed [OF r p, of "metric_for ''PassingCase.test_a''"
        "\<lparr>test_names = [''PassingCase.test_a'']\<rparr>"]
    by (simp add: metric_for_def)
qed

text \<open>
  C6 as stated fails: two tests run and pass, and the hint starts with the identifier
  \<^verbatim>\<open>PassingCase\<close>, not with the number 2.
\<close>

theorem evaluate_all_passed_counterexample:
  "testsRun (suite_run (loadTestsFromTestCase PassingCase) TestResult_new) = 2
   \<and> failures (suite_run (loadTestsFromTestCase PassingCase) TestResult_new) = []
   \<and> errors (suite_run (loadTestsFromTestCase PassingCase) TestResult_new) = []
   \<and> res_hint (fst (evaluate (context_for PassingCase) (metric_for ''PassingCase'')
          \<lparr>test_names = [''PassingCase'']\<rparr>)) = ''PassingCase test passed''
   \<and> res_hint (fst (evaluate (context_for PassingCase) (metric_for ''PassingCase'')
          \<lparr>test_names = [''PassingCase'']\<rparr>)) \<noteq> ''2 test passed''"
  by (simp add: evaluate_result context_for_def metric_for_def run_Passing Let_def)




text \<open>
  C10. When at least one executed test fails or errors, the names in the hint are those of
  \<^verbatim>\<open>result.errors\<close> in its order, then those of \<^verbatim>\<open>result.failures\<close> in its order,
  joined by \<^verbatim>\<open>, \<close>; both lists hold their entries in the order in which the run reported
  them.
\<close>

theorem evaluate_hint_order:
  assumes "r = suite_run (loadTestsFromTestCase (ctx_unittestcase_class self)) TestResult_new"
    and "0 < length (failures r) + length (errors r)"
  shows "res_hint (fst (evaluate self metric resource)) =
           (if testsRun r = length (failures r) + length (errors r)
            then ''All tests failed: '' else ''Some tests failed: '')
           @ join '', '' (map (\<lambda>e. str_test (fst e)) (errors r)
                          @ map (\<lambda>e. str_test (fst e)) (failures r))
       \<and> errors r = error_entries (loadTestsFromTestCase (ctx_unittestcase_class self))
       \<and> failures r = failure_entries (loadTestsFromTestCase (ctx_unittestcase_class self))"
  using assms by (auto simp add: evaluate_result Let_def errors_suite_run failures_suite_run)

text \<open>
  C10 on the class where the failing test runs before the erroring one: the erroring test is
  named first.
\<close>

theorem evaluate_hint_order_witness:
  "length (failures (suite_run (loadTestsFromTestCase DemoCase) TestResult_new)) = 1
   \<and> length (errors (suite_run (loadTestsFromTestCase DemoCase) TestResult_new)) = 1
   \<and> res_hint (fst (evaluate (context_for DemoCase) (metric_for ''DemoCase'')
                     \<lparr>test_names = [''DemoCase'']\<rparr>))
       = ''Some tests failed: test_c (checks.DemoCase), test_b (checks.DemoCase)''"
proof -
  have r: "suite_run (loadTestsFromTestCase DemoCase) TestResult_new =
      suite_run (loadTestsFromTestCase (ctx_unittestcase_class (context_for DemoCase)))
        TestResult_new"
    by (simp add: context_for_def)
  have p: "0 < length (failures (suite_run (loadTestsFromTestCase DemoCase) TestResult_new))
             + length (errors (suite_run (loadTestsFromTestCase DemoCase) TestResult_new))"
    by (simp add: run_Demo)
  have h: "res_hint (fst (evaluate (context_for DemoCase) (metric_for ''DemoCase'')
                     \<lparr>test_names = [''DemoCase'']\<rparr>))
       = ''Some tests failed: test_c (checks.DemoCase), test_b (checks.DemoCase)''"
    using conjunct1 [OF evaluate_hint_order [OF r p, of "metric_for ''DemoCase''"
        "\<lparr>test_names = [''DemoCase'']\<rparr>"]]
    by (simp add: run_Demo)
  have l: "length (failures (suite_run (loadTestsFromTestCase DemoCase) TestResult_new)) = 1
      \<and> length (errors (suite_run (loadTestsFromTestCase DemoCase) TestResult_new)) = 1"
    by (simp add: run_Demo)
  from h l show ?thesis by blast
qed


section \<open>The reporter\<close>

lemma join_Cons: "join sep (x # xs) = x @ concat (map (\<lambda>y. sep @ y) xs)"
  by (induction xs arbitrary: x) auto

lemma join_aggregate_report: "join sep xs = aggregate_report sep xs"
  by (cases xs) (simp_all add: join_Cons)

text \<open>
  C9. For every list of results the rendering of \<open>ok\<close> and of \<open>problem\<close> is the same: the
  hints of the results joined by \<^verbatim>\<open>, \<close>, whatever their states, and the same text written
  to the log at level INFO.
\<close>

theorem ok_problem_same_rendering:
  "ok results = problem results
   \<and> fst (ok results) = aggregate_report '', '' (map res_hint results)
   \<and> fst (problem results) = aggregate_report '', '' (map res_hint results)
   \<and> snd (ok results) = [LogRecord INFO (aggregate_report '', '' (map res_hint results)) None]"
  by (simp add: ok_def problem_def Let_def join_aggregate_report)

section \<open>The entry point\<close>

lemma nameToLevel_get_None:
  "v \<notin> set LOG_LEVEL_NAMES \<Longrightarrow> nameToLevel_get (Some v) = None"
  by (simp add: nameToLevel_get_def LOG_LEVEL_NAMES_def map_of_eq_None_iff)

lemma parsed_fields:
  "pa_log_level (fst (parse_known_args d argv)) = flag_or_default (opt_slack_log_level argv) (pa_log_level d)"
  "pa_slack_webhook_url (fst (parse_known_args d argv)) = flag_or_default (opt_slack_webhook_url argv) (pa_slack_webhook_url d)"
  "pa_slack_channel (fst (parse_known_args d argv)) = flag_or_default (opt_slack_channel argv) (pa_slack_channel d)"
  "pa_slack_user (fst (parse_known_args d argv)) = flag_or_default (opt_slack_user argv) (pa_slack_user d)"
  "snd (parse_known_args d argv) = remaining_args argv"
  by (simp_all add: parse_known_args_def flag_or_default_def)

lemma flag_or_default_idem:
  "(case flag_or_default f d of Some v \<Rightarrow> Some v | None \<Rightarrow> d) = flag_or_default f d"
  by (simp add: flag_or_default_def split: option.splits)

lemma flag_or_default_None:
  "(case flag_or_default f None of Some v \<Rightarrow> Some v | None \<Rightarrow> d) = flag_or_default f d"
  by (simp add: flag_or_default_def split: option.splits)

text \<open>The handlers of the logger after the call.\<close>

lemma nagios_script_handlers:
  "snd (nagios_script cls cn log_level url ch us argv hs) =
     (if log_level = None then hs
      else case flag_or_default (opt_slack_webhook_url argv) url of
             None \<Rightarrow> hs
           | Some u \<Rightarrow>
               (case nameToLevel_get (flag_or_default (opt_slack_log_level argv)
                                        (levelToName_get log_level)) of
                  None \<Rightarrow> hs
                | Some l \<Rightarrow>
                    hs @ [\<lparr>sh_webhook_url = u,
                           sh_channel = flag_or_default (opt_slack_channel argv) ch,
                           sh_username = flag_or_default (opt_slack_user argv) us,
                           sh_level = l\<rparr>]))"
  by (cases "flag_or_default (opt_slack_webhook_url argv) url";
      cases "nameToLevel_get (flag_or_default (opt_slack_log_level argv)
               (levelToName_get log_level))";
      simp add: nagios_script_def Let_def parsed_fields flag_or_default_idem
        flag_or_default_None)

lemma nagios_script_outcome:
  "fst (nagios_script cls cn log_level url ch us argv hs) =
     (if log_level = None then
        Inl (UnittestNagiosWrapperConfigError
              (''Unrecognised default log-level set.  Use one of: '' @ LOG_LEVEL_NAMES_STR))
      else if flag_or_default (opt_slack_webhook_url argv) url \<noteq> None
              \<and> nameToLevel_get (flag_or_default (opt_slack_log_level argv)
                                    (levelToName_get log_level)) = None then
        Inl (ParserError
              (''%(prog)s [-h] [-s] [-c] [-u] ['' @
                 join ''] [''
                   (map (\<lambda>nm. cls_name cls @ ''.'' @ nm)
                      (filter (\<lambda>nm. startswith nm ''test'') (cls_dir cls))) @ '']'')
              (''Unrecognised log-level.  Use one of: '' @ LOG_LEVEL_NAMES_STR))
      else
        Inr \<lparr>chk_resource =
               \<lparr>test_names = (if remaining_args argv = [] then [cls_name cls]
                               else remaining_args argv)\<rparr>,
             chk_context =
               \<lparr>ctx_name = ''UnittestCaseContext'',
                fmt_metric = (case opt_test_name argv of Some v \<Rightarrow> v | None \<Rightarrow> cls_name cls),
                ctx_unittestcase_class = cls\<rparr>,
             chk_name = (case opt_test_name argv of Some v \<Rightarrow> v | None \<Rightarrow> cls_name cls)\<rparr>)"
  by (cases "flag_or_default (opt_slack_webhook_url argv) url";
      cases "nameToLevel_get (flag_or_default (opt_slack_log_level argv)
               (levelToName_get log_level))";
      simp add: nagios_script_def Let_def parsed_fields flag_or_default_idem
        flag_or_default_None; simp add: parse_known_args_def split: option.splits)

lemma LOG_LEVEL_NAMES_STR_eq:
  "LOG_LEVEL_NAMES_STR = ''CRITICAL, FATAL, ERROR, WARN, WARNING, INFO, DEBUG, NOTSET''"
  by (simp add: LOG_LEVEL_NAMES_STR_def LOG_LEVEL_NAMES_def nameToLevel_def)

text \<open>
  C3. A default log level that is no key of \<^verbatim>\<open>logging._levelToName\<close>, here 7, raises no
  configuration exception: the test is on \<^verbatim>\<open>log_level\<close>, not on the name looked up.
  Without a webhook URL the call goes on to build the check; with one it ends in the parser's
  usage error, after the command line has been parsed.
\<close>

theorem nagios_script_invalid_default_log_level:
  "levelToName_get (Some 7) = None
   \<and> nagios_script DemoCase None (Some 7) None None None no_options [] =
       (Inr \<lparr>chk_resource = \<lparr>test_names = [''DemoCase'']\<rparr>,
             chk_context = context_for DemoCase,
             chk_name = ''DemoCase''\<rparr>, [])
   \<and> nagios_script DemoCase None (Some 7) (Some ''https://hooks.example/T'') None None
         no_options [] =
       (Inl (ParserError
              ''%(prog)s [-h] [-s] [-c] [-u] [DemoCase.test_a] [DemoCase.test_b] [DemoCase.test_c]''
              ''Unrecognised log-level.  Use one of: CRITICAL, FATAL, ERROR, WARN, WARNING, INFO, DEBUG, NOTSET''),
        [])"
proof -
  have l: "levelToName_get (Some 7) = None"
    by (simp add: levelToName_get_def levelToName_def)
  have a: "nagios_script DemoCase None (Some 7) None None None no_options [] =
       (Inr \<lparr>chk_resource = \<lparr>test_names = [''DemoCase'']\<rparr>,
             chk_context = context_for DemoCase,
             chk_name = ''DemoCase''\<rparr>, [])"
    by (rule prod_eqI)
      (simp_all add: nagios_script_outcome nagios_script_handlers no_options_def
        flag_or_default_def context_for_def, simp add: DemoCase_def)
  have b: "nagios_script DemoCase None (Some 7) (Some ''https://hooks.example/T'') None None
         no_options [] =
       (Inl (ParserError
              ''%(prog)s [-h] [-s] [-c] [-u] [DemoCase.test_a] [DemoCase.test_b] [DemoCase.test_c]''
              ''Unrecognised log-level.  Use one of: CRITICAL, FATAL, ERROR, WARN, WARNING, INFO, DEBUG, NOTSET''),
        [])"
    by (rule prod_eqI)
      (simp_all add: nagios_script_outcome nagios_script_handlers no_options_def
        flag_or_default_def l nameToLevel_get_def LOG_LEVEL_NAMES_STR_eq,
        simp add: DemoCase_def startswith_def)
  from l a b show ?thesis by blast
qed

text \<open>
  C4, as amended. For a value of \<^verbatim>\<open>--slack-log-level\<close> that is no severity name, and a
  default log level that is not \<^verbatim>\<open>None\<close>: no handler is attached; when a webhook URL is
  given by the flag or by the default, the call ends in the parser's usage error; when none is
  given, the value is not checked and the check is built.
\<close>

theorem nagios_script_unrecognised_log_level:
  assumes "log_level \<noteq> None"
    and "opt_slack_log_level argv = Some v"
    and "v \<notin> set LOG_LEVEL_NAMES"
  shows "snd (nagios_script cls cn log_level url ch us argv hs) = hs
       \<and> (if flag_or_default (opt_slack_webhook_url argv) url = None
          then \<exists>chk. fst (nagios_script cls cn log_level url ch us argv hs) = Inr chk
          else \<exists>usage. fst (nagios_script cls cn log_level url ch us argv hs) =
                 Inl (ParserError usage
                       (''Unrecognised log-level.  Use one of: '' @ LOG_LEVEL_NAMES_STR)))"
proof -
  have n: "nameToLevel_get (flag_or_default (opt_slack_log_level argv)
             (levelToName_get log_level)) = None"
    using assms(2,3) by (simp add: flag_or_default_def nameToLevel_get_None)
  show ?thesis
    using assms(1) n
    by (cases "flag_or_default (opt_slack_webhook_url argv) url")
      (simp_all add: nagios_script_outcome nagios_script_handlers)
qed

text \<open>
  The amended C4 on two command lines, with and without a webhook URL.
\<close>

theorem nagios_script_unrecognised_log_level_witness:
  "snd (nagios_script DemoCase None (Some 30) None None None
          (no_options\<lparr>opt_slack_log_level := Some ''BOGUS'',
                       opt_slack_webhook_url := Some ''https://hooks.example/T''\<rparr>) []) = []
   \<and> (\<exists>usage. fst (nagios_script DemoCase None (Some 30) None None None
          (no_options\<lparr>opt_slack_log_level := Some ''BOGUS'',
                       opt_slack_webhook_url := Some ''https://hooks.example/T''\<rparr>) []) =
        Inl (ParserError usage
              (''Unrecognised log-level.  Use one of: '' @ LOG_LEVEL_NAMES_STR)))
   \<and> snd (nagios_script DemoCase None (Some 30) None None None
          (no_options\<lparr>opt_slack_log_level := Some ''BOGUS''\<rparr>) []) = []
   \<and> (\<exists>chk. fst (nagios_script DemoCase None (Some 30) None None None
          (no_options\<lparr>opt_slack_log_level := Some ''BOGUS''\<rparr>) []) = Inr chk)"
proof -
  have v: "''BOGUS'' \<notin> set LOG_LEVEL_NAMES"
    by (simp add: LOG_LEVEL_NAMES_def nameToLevel_def)
  have d: "Some (30::int) \<noteq> None" by simp
  have a: "opt_slack_log_level (no_options\<lparr>opt_slack_log_level := Some ''BOGUS'',
                       opt_slack_webhook_url := Some ''https://hooks.example/T''\<rparr>) = Some ''BOGUS''"
    by simp
  have b: "opt_slack_log_level (no_options\<lparr>opt_slack_log_level := Some ''BOGUS''\<rparr>) = Some ''BOGUS''"
    by simp
  show ?thesis
    using nagios_script_unrecognised_log_level [OF d a v, where cls = DemoCase and cn = None and url = None and ch = None
          and us = None and hs = "[]"]
      nagios_script_unrecognised_log_level [OF d b v, where cls = DemoCase and cn = None and url = None and ch = None
          and us = None and hs = "[]"]
    by (simp add: flag_or_default_def no_options_def)
qed

text \<open>
  C4 as stated fails: with no webhook URL the value \<^verbatim>\<open>BOGUS\<close> ends in no usage error.
\<close>

theorem nagios_script_unrecognised_log_level_counterexample:
  "''BOGUS'' \<notin> set LOG_LEVEL_NAMES
   \<and> nagios_script DemoCase None (Some 30) None None None
         (no_options\<lparr>opt_slack_log_level := Some ''BOGUS''\<rparr>) [] =
       (Inr \<lparr>chk_resource = \<lparr>test_names = [''DemoCase'']\<rparr>,
             chk_context = context_for DemoCase,
             chk_name = ''DemoCase''\<rparr>, [])"
proof -
  have "''BOGUS'' \<notin> set LOG_LEVEL_NAMES"
    by (simp add: LOG_LEVEL_NAMES_def nameToLevel_def)
  moreover have "nagios_script DemoCase None (Some 30) None None None
         (no_options\<lparr>opt_slack_log_level := Some ''BOGUS''\<rparr>) [] =
       (Inr \<lparr>chk_resource = \<lparr>test_names = [''DemoCase'']\<rparr>,
             chk_context = context_for DemoCase,
             chk_name = ''DemoCase''\<rparr>, [])"
    by (rule prod_eqI)
      (simp_all add: nagios_script_outcome nagios_script_handlers no_options_def
        flag_or_default_def context_for_def, simp add: DemoCase_def)
  ultimately show ?thesis by blast
qed

text \<open>
  C7, as amended. When the call reaches the check, the selection given to the resource is the
  list of the class name alone if the parser leaves no argument over, neither a positional one
  nor an option it does not know; otherwise it is the list of the arguments left over.
  \<open>probe\<close> yields one metric for each name of the selection.
\<close>

theorem nagios_script_default_selection:
  assumes "fst (nagios_script cls cn log_level url ch us argv hs) = Inr chk"
  shows "test_names (chk_resource chk) =
           (if remaining_args argv = [] then [cls_name cls] else remaining_args argv)
       \<and> map metric_name (probe (chk_resource chk)) =
           (if remaining_args argv = [] then [cls_name cls] else remaining_args argv)"
proof -
  have "test_names (chk_resource chk) =
           (if remaining_args argv = [] then [cls_name cls] else remaining_args argv)"
    using assms by (auto simp add: nagios_script_outcome split: if_splits)
  then show ?thesis by (simp add: probe_def comp_def)
qed

text \<open>The amended C7 on a command line without any argument.\<close>

theorem nagios_script_default_selection_witness:
  "remaining_args no_options = []
   \<and> (\<exists>chk. fst (nagios_script DemoCase None (Some 30) None None None no_options []) = Inr chk
          \<and> test_names (chk_resource chk) = [''DemoCase'']
          \<and> map metric_name (probe (chk_resource chk)) = [''DemoCase''])"
proof -
  have r: "remaining_args no_options = []" by (simp add: no_options_def)
  have f: "fst (nagios_script DemoCase None (Some 30) None None None no_options []) =
       Inr \<lparr>chk_resource = \<lparr>test_names = [''DemoCase'']\<rparr>,
             chk_context = context_for DemoCase, chk_name = ''DemoCase''\<rparr>"
    by (simp add: nagios_script_outcome no_options_def flag_or_default_def context_for_def,
        simp add: DemoCase_def)
  show ?thesis using r f nagios_script_default_selection [OF f] by (simp add: DemoCase_def)
qed

text \<open>
  C7 as stated fails: the command line \<^verbatim>\<open>-v\<close> holds no positional argument, and the
  selection is the list of \<^verbatim>\<open>-v\<close>, not of the class name.
\<close>

theorem nagios_script_default_selection_counterexample:
  "positional_args (no_options\<lparr>remaining_args := [''-v'']\<rparr>) = []
   \<and> nagios_script DemoCase None (Some 30) None None None
         (no_options\<lparr>remaining_args := [''-v'']\<rparr>) [] =
       (Inr \<lparr>chk_resource = \<lparr>test_names = [''-v'']\<rparr>,
             chk_context = context_for DemoCase,
             chk_name = ''DemoCase''\<rparr>, [])"
proof -
  have "positional_args (no_options\<lparr>remaining_args := [''-v'']\<rparr>) = []"
    by (simp add: positional_args_def positional_def negative_number_def digit_def)
  moreover have "nagios_script DemoCase None (Some 30) None None None
         (no_options\<lparr>remaining_args := [''-v'']\<rparr>) [] =
       (Inr \<lparr>chk_resource = \<lparr>test_names = [''-v'']\<rparr>,
             chk_context = context_for DemoCase,
             chk_name = ''DemoCase''\<rparr>, [])"
    by (rule prod_eqI)
      (simp_all add: nagios_script_outcome nagios_script_handlers no_options_def
        flag_or_default_def context_for_def, simp add: DemoCase_def)
  ultimately show ?thesis by blast
qed

text \<open>
  C8. When neither the flag nor the default gives a webhook URL the handlers of the logger are
  unchanged. When one is given, the default log level is not \<^verbatim>\<open>None\<close> and the log level
  names a severity, exactly one handler is appended, with the URL, the channel and the user
  each taken from the flag if present and from the default otherwise, at the level named.
\<close>

theorem nagios_script_notification_config:
  "(flag_or_default (opt_slack_webhook_url argv) url = None \<longrightarrow>
      snd (nagios_script cls cn log_level url ch us argv hs) = hs)
   \<and> (\<forall>u l. log_level \<noteq> None \<longrightarrow>
             flag_or_default (opt_slack_webhook_url argv) url = Some u \<longrightarrow>
             nameToLevel_get (flag_or_default (opt_slack_log_level argv)
                                (levelToName_get log_level)) = Some l \<longrightarrow>
             snd (nagios_script cls cn log_level url ch us argv hs) =
               hs @ [\<lparr>sh_webhook_url = u,
                      sh_channel = flag_or_default (opt_slack_channel argv) ch,
                      sh_username = flag_or_default (opt_slack_user argv) us,
                      sh_level = l\<rparr>])"
  by (cases log_level) (simp_all add: nagios_script_handlers)

text \<open>
  C8 on a command line that gives the URL, the level and the user, the channel coming from
  the default; and on one without a URL.
\<close>

theorem nagios_script_notification_config_witness:
  "snd (nagios_script DemoCase None (Some 30) None (Some ''#alerts'') (Some ''bot'')
          (no_options\<lparr>opt_slack_webhook_url := Some ''https://hooks.example/T'',
                       opt_slack_log_level := Some ''ERROR'',
                       opt_slack_user := Some ''nagios''\<rparr>)
          [])
     = [\<lparr>sh_webhook_url = ''https://hooks.example/T'', sh_channel = Some ''#alerts'',
         sh_username = Some ''nagios'', sh_level = 40\<rparr>]
   \<and> snd (nagios_script DemoCase None (Some 30) None (Some ''#alerts'') (Some ''bot'')
          (no_options\<lparr>opt_slack_log_level := Some ''ERROR''\<rparr>) []) = []"
proof -
  show ?thesis
    using nagios_script_notification_config [where log_level = "Some 30"
          and argv = "no_options\<lparr>opt_slack_webhook_url := Some ''https://hooks.example/T'',
                                 opt_slack_log_level := Some ''ERROR'',
                                 opt_slack_user := Some ''nagios''\<rparr>"
          and url = None and hs = "[]" and cls = DemoCase and cn = None
          and ch = "Some ''#alerts''" and us = "Some ''bot''"]
      nagios_script_notification_config [where log_level = "Some 30"
          and argv = "no_options\<lparr>opt_slack_log_level := Some ''ERROR''\<rparr>"
          and url = None and hs = "[]" and cls = DemoCase and cn = None
          and ch = "Some ''#alerts''" and us = "Some ''bot''"]
    by (simp add: flag_or_default_def no_options_def nameToLevel_get_def nameToLevel_def)
qed

end
